theory Spec2Isabelle
  imports Complex_Main "HOL-Library.Multiset"
begin

section \<open>Habit Tracker (Code.js): data model\<close>

text \<open>
  The values \<^verbatim>\<open>Range.getValues()\<close> hands to the script: a cell holds text, a number,
  a boolean or a Date; an empty cell reads as the empty text. \<^verbatim>\<open>null\<close> is kept because
  the script compares against it. Numbers are JavaScript doubles; the model computes with
  exact rationals. A Date is its local time in milliseconds: \<^verbatim>\<open>getTime()\<close> plus the
  offset of the script's time zone, which is taken to be fixed (no daylight saving), so
  that local midnight is a multiple of one day and day 0 is 1 January 1970.
\<close>

datatype cell = CStr string | CNum rat | CBool bool | CDate int | CNull

text \<open>
  One row of the Tracking sheet, columns A to F in the order of \<^verbatim>\<open>COL\<close>. The sheet is
  modelled at the width of \<^verbatim>\<open>HEADER_ROW\<close> (six columns); the script reads and writes no
  other column.
\<close>

record row =
  colDate :: cell
  colExerciseType :: cell
  colExerciseMin :: cell
  colBeerCount :: cell
  colWeight :: cell
  colNotes :: cell

text \<open>
  A sheet is the list of its rows 1 to \<^verbatim>\<open>getLastRow()\<close>; row 1 is where the header
  stands. A blank sheet is the empty list.
\<close>

type_synonym sheet = "row list"

record email =
  mailTo :: string
  mailSubject :: string
  mailBody :: string

text \<open>
  The state the script works on: the sheet named "Tracking" (if there is one), the script
  property \<^verbatim>\<open>lastReminderDate\<close> (if set), the mails \<^verbatim>\<open>MailApp\<close> has sent (oldest first),
  the spreadsheet's URL and the effective user's address.
  A "yyyy-MM-dd" text is represented by the number of the calendar day it names (days
  since 1970-01-01), see \<open>formatDate\<close>.
\<close>

record world =
  tracking :: "sheet option"
  lastReminderDate :: "int option"
  outbox :: "email list"
  ssUrl :: string
  userEmail :: string

datatype error = SheetNotFound | MailFailed

definition emptyCell :: cell where
  "emptyCell = CStr []"

definition blankRow :: row where
  "blankRow = \<lparr>colDate = emptyCell, colExerciseType = emptyCell, colExerciseMin = emptyCell,
     colBeerCount = emptyCell, colWeight = emptyCell, colNotes = emptyCell\<rparr>"

subsection \<open>Dates\<close>

definition DAY_MS :: int where
  "DAY_MS = 86400000"

text \<open>\<^verbatim>\<open>Utilities.formatDate(d, tz, "yyyy-MM-dd")\<close>: the calendar day of \<open>d\<close>, as a day number.\<close>

definition formatDate :: "int \<Rightarrow> int" where
  "formatDate t = t div DAY_MS"

text \<open>
  Isabelle admits no name that ends in an underscore, so the private helpers
  \<^verbatim>\<open>normalizeDate_\<close>, \<^verbatim>\<open>getTrackingSheet_\<close>, \<^verbatim>\<open>getTrackingData_\<close>, \<^verbatim>\<open>getWeekStats_\<close> and
  \<^verbatim>\<open>getMonthStats_\<close> are written without it.
\<close>

text \<open>\<^verbatim>\<open>normalizeDate_\<close>: a copy of the date with \<^verbatim>\<open>setHours(0, 0, 0, 0)\<close>.\<close>

definition normalizeDate :: "int \<Rightarrow> int" where
  "normalizeDate t = t - t mod DAY_MS"

text \<open>\<^verbatim>\<open>Date.getDay()\<close>: 0 is Sunday; 1970-01-01 was a Thursday.\<close>

definition getDay :: "int \<Rightarrow> int" where
  "getDay t = (4 + t div DAY_MS) mod 7"

subsection \<open>JavaScript tests on cells\<close>

text \<open>Truthiness: the empty text, 0, false and null are falsy; a Date is an object.\<close>

fun truthy :: "cell \<Rightarrow> bool" where
  "truthy (CStr s) = (s \<noteq> [])"
| "truthy (CNum x) = (x \<noteq> 0)"
| "truthy (CBool b) = b"
| "truthy (CDate t) = True"
| "truthy CNull = False"

text \<open>\<^verbatim>\<open>exerciseType && exerciseType !== "Rest Day" && exerciseType !== ""\<close>\<close>

definition isExercise :: "cell \<Rightarrow> bool" where
  "isExercise c = (truthy c \<and> c \<noteq> CStr ''Rest Day'' \<and> c \<noteq> CStr [])"

text \<open>\<^verbatim>\<open>beerCount === 0 || beerCount === "" || beerCount === null\<close>\<close>

definition isNoAlcohol :: "cell \<Rightarrow> bool" where
  "isNoAlcohol c = (c = CNum 0 \<or> c = CStr [] \<or> c = CNull)"

subsection \<open>Reading the sheet\<close>

text \<open>\<^verbatim>\<open>getTrackingSheet_\<close> throws when no sheet is named "Tracking".\<close>

definition getTrackingSheet :: "world \<Rightarrow> error + sheet" where
  "getTrackingSheet w = (case tracking w of None \<Rightarrow> Inl SheetNotFound | Some sh \<Rightarrow> Inr sh)"

text \<open>\<^verbatim>\<open>sheet.getLastRow()\<close>\<close>

definition getLastRow :: "sheet \<Rightarrow> nat" where
  "getLastRow sh = length sh"

text \<open>\<^verbatim>\<open>sheet.getDataRange().getValues()\<close>: of a blank sheet, the single empty cell A1.\<close>

definition getDataRangeValues :: "sheet \<Rightarrow> row list" where
  "getDataRangeValues sh = (if sh = [] then [blankRow] else sh)"

text \<open>\<^verbatim>\<open>getTrackingData_\<close>: rows 2 to the last row, nothing when \<^verbatim>\<open>lastRow <= 1\<close>.\<close>

definition getTrackingData :: "world \<Rightarrow> error + row list" where
  "getTrackingData w =
     (case getTrackingSheet w of
        Inl e \<Rightarrow> Inl e
      | Inr sh \<Rightarrow> (if getLastRow sh \<le> 1 then Inr [] else Inr (drop 1 sh)))"

section \<open>Streak calculation\<close>

text \<open>
  \<^verbatim>\<open>for (let i = data.length - 1; i >= 0; i--)\<close> with its \<^verbatim>\<open>break\<close>: the second
  argument is \<open>i + 1\<close>, so 0 is the exit of the loop and \<open>data ! i\<close> is always in range.
\<close>

fun exerciseStreakLoop :: "row list \<Rightarrow> nat \<Rightarrow> nat \<Rightarrow> nat" where
  "exerciseStreakLoop data 0 streak = streak"
| "exerciseStreakLoop data (Suc i) streak =
     (if isExercise (colExerciseType (data ! i))
      then exerciseStreakLoop data i (streak + 1)
      else streak)"

definition calculateExerciseStreak :: "world \<Rightarrow> error + nat" where
  "calculateExerciseStreak w =
     (case getTrackingData w of
        Inl e \<Rightarrow> Inl e
      | Inr data \<Rightarrow> Inr (exerciseStreakLoop data (length data) 0))"

fun noAlcoholStreakLoop :: "row list \<Rightarrow> nat \<Rightarrow> nat \<Rightarrow> nat" where
  "noAlcoholStreakLoop data 0 streak = streak"
| "noAlcoholStreakLoop data (Suc i) streak =
     (if isNoAlcohol (colBeerCount (data ! i))
      then noAlcoholStreakLoop data i (streak + 1)
      else streak)"

definition calculateNoAlcoholStreak :: "world \<Rightarrow> error + nat" where
  "calculateNoAlcoholStreak w =
     (case getTrackingData w of
        Inl e \<Rightarrow> Inl e
      | Inr data \<Rightarrow> Inr (noAlcoholStreakLoop data (length data) 0))"

text \<open>The forward pass: the rows still to visit, then \<^verbatim>\<open>longest\<close> and \<^verbatim>\<open>current\<close>.\<close>

fun longestStreakLoop :: "row list \<Rightarrow> nat \<Rightarrow> nat \<Rightarrow> nat" where
  "longestStreakLoop [] longest current = longest"
| "longestStreakLoop (r # rs) longest current =
     (if isExercise (colExerciseType r)
      then longestStreakLoop rs (max longest (current + 1)) (current + 1)
      else longestStreakLoop rs longest 0)"

definition calculateLongestExerciseStreak :: "world \<Rightarrow> error + nat" where
  "calculateLongestExerciseStreak w =
     (case getTrackingData w of
        Inl e \<Rightarrow> Inl e
      | Inr data \<Rightarrow> Inr (longestStreakLoop data 0 0))"

section \<open>Statistics helpers\<close>

text \<open>\<^verbatim>\<open>typeof x === "number"\<close>\<close>

fun isNumber :: "cell \<Rightarrow> bool" where
  "isNumber (CNum x) = True"
| "isNumber c = False"

fun numberOf :: "cell \<Rightarrow> rat" where
  "numberOf (CNum x) = x"
| "numberOf c = 0"

record weekStats =
  exerciseDays :: nat
  totalMinutes :: rat
  totalBeers :: rat
  avgWeight :: "rat option"

text \<open>
  The body of \<^verbatim>\<open>for (const row of data)\<close> in \<^verbatim>\<open>getWeekStats_\<close>; the accumulators are
  \<^verbatim>\<open>exerciseDays\<close>, \<^verbatim>\<open>totalMinutes\<close>, \<^verbatim>\<open>totalBeers\<close> and \<^verbatim>\<open>weights\<close>.
\<close>

fun weekLoop :: "int \<Rightarrow> row list \<Rightarrow> nat \<Rightarrow> rat \<Rightarrow> rat \<Rightarrow> rat list \<Rightarrow> nat \<times> rat \<times> rat \<times> rat list" where
  "weekLoop monday [] ed tm tb ws = (ed, tm, tb, ws)"
| "weekLoop monday (r # rs) ed tm tb ws =
     (case colDate r of
        CDate d \<Rightarrow>
          (if normalizeDate d < monday then weekLoop monday rs ed tm tb ws
           else
             let ed' = (if isExercise (colExerciseType r) then ed + 1 else ed);
                 tm' = (if isNumber (colExerciseMin r) then tm + numberOf (colExerciseMin r) else tm);
                 tb' = (if isNumber (colBeerCount r) then tb + numberOf (colBeerCount r) else tb);
                 ws' = (if isNumber (colWeight r) \<and> numberOf (colWeight r) > 0
                        then ws @ [numberOf (colWeight r)] else ws)
             in weekLoop monday rs ed' tm' tb' ws')
      | _ \<Rightarrow> weekLoop monday rs ed tm tb ws)"

text \<open>Monday 00:00 of the week of \<open>now\<close>, as \<^verbatim>\<open>getWeekStats_\<close> computes it.\<close>

definition mondayOf :: "int \<Rightarrow> int" where
  "mondayOf now =
     (let dayOfWeek = getDay now;
          mondayOffset = (if dayOfWeek = 0 then 6 else dayOfWeek - 1)
      in normalizeDate (now - mondayOffset * DAY_MS))"

definition getWeekStats :: "int \<Rightarrow> world \<Rightarrow> error + weekStats" where
  "getWeekStats now w =
     (let monday = mondayOf now in
      case getTrackingData w of
        Inl e \<Rightarrow> Inl e
      | Inr data \<Rightarrow>
          (case weekLoop monday data 0 0 0 [] of
             (ed, tm, tb, ws) \<Rightarrow>
               Inr \<lparr>exerciseDays = ed, totalMinutes = tm, totalBeers = tb,
                    avgWeight = (if length ws > 0
                                 then Some (foldl (+) 0 ws / of_nat (length ws))
                                 else None)\<rparr>))"

text \<open>Decimal digits of a natural number, as a template literal prints a count.\<close>

fun decimal :: "nat \<Rightarrow> string" where
  "decimal n =
     (if n < 10 then [''0123456789'' ! n]
      else decimal (n div 10) @ [''0123456789'' ! (n mod 10)])"

text \<open>
  \<^verbatim>\<open>Number.prototype.toFixed(0)\<close>: the sign, then the integer nearest to the magnitude,
  the larger one of two equally near (magnitudes below \<open>10\<^sup>2\<^sup>1\<close>).
\<close>

definition toFixed0 :: "rat \<Rightarrow> string" where
  "toFixed0 x =
     (if x < 0 then ''-'' @ decimal (nat \<lfloor>- x + 1 / 2\<rfloor>)
      else decimal (nat \<lfloor>x + 1 / 2\<rfloor>))"

text \<open>
  The result of \<^verbatim>\<open>getMonthStats_\<close>; its \<^verbatim>\<open>exerciseDays\<close> is named \<open>monthExerciseDays\<close>
  here, the week's record owning the short name.
\<close>

record monthStats =
  monthExerciseDays :: nat
  noAlcoholDays :: nat
  beerFreeRate :: string

fun monthLoop :: "int \<Rightarrow> row list \<Rightarrow> nat \<Rightarrow> nat \<Rightarrow> nat \<Rightarrow> nat \<times> nat \<times> nat" where
  "monthLoop thirtyDaysAgo [] ed na td = (ed, na, td)"
| "monthLoop thirtyDaysAgo (r # rs) ed na td =
     (case colDate r of
        CDate d \<Rightarrow>
          (if normalizeDate d < thirtyDaysAgo then monthLoop thirtyDaysAgo rs ed na td
           else
             let td' = td + 1;
                 ed' = (if isExercise (colExerciseType r) then ed + 1 else ed);
                 na' = (if isNoAlcohol (colBeerCount r) then na + 1 else na)
             in monthLoop thirtyDaysAgo rs ed' na' td')
      | _ \<Rightarrow> monthLoop thirtyDaysAgo rs ed na td)"

definition getMonthStats :: "int \<Rightarrow> world \<Rightarrow> error + monthStats" where
  "getMonthStats now w =
     (let thirtyDaysAgo = normalizeDate (now - 30 * DAY_MS) in
      case getTrackingData w of
        Inl e \<Rightarrow> Inl e
      | Inr data \<Rightarrow>
          (case monthLoop thirtyDaysAgo data 0 0 0 of
             (ed, na, td) \<Rightarrow>
               Inr \<lparr>monthExerciseDays = ed, noAlcoholDays = na,
                    beerFreeRate = (if td > 0
                                    then toFixed0 ((of_nat na / of_nat td) * 100)
                                    else ''0'')\<rparr>))"

section \<open>Daily row management\<close>

text \<open>
  \<^verbatim>\<open>sheet.getRange(n, COL.DATE).setValue(v)\<close>, rows counted from 1: a row below the last
  one comes into being with its other cells empty (and so do the rows between).
\<close>

definition setDateValue :: "sheet \<Rightarrow> nat \<Rightarrow> cell \<Rightarrow> sheet" where
  "setDateValue sh n v =
     (if n = 0 then sh
      else if n \<le> length sh then sh[n - 1 := (sh ! (n - 1))\<lparr>colDate := v\<rparr>]
      else sh @ replicate (n - 1 - length sh) blankRow @ [blankRow\<lparr>colDate := v\<rparr>])"

text \<open>The scan of \<^verbatim>\<open>addTodayRow\<close> over \<^verbatim>\<open>data[1..]\<close>; True is its early \<^verbatim>\<open>return\<close>.\<close>

fun todayRowExists :: "int \<Rightarrow> row list \<Rightarrow> bool" where
  "todayRowExists today [] = False"
| "todayRowExists today (r # rs) =
     (case colDate r of
        CDate d \<Rightarrow> (if formatDate d = today then True else todayRowExists today rs)
      | _ \<Rightarrow> todayRowExists today rs)"

text \<open>
  \<^verbatim>\<open>addTodayRow\<close>, with \<open>now\<close> for both of its \<^verbatim>\<open>new Date()\<close>; the result is the error
  thrown (if any) and the state left behind. The number format it sets is not a value and
  is not modelled.
\<close>

definition addTodayRow :: "int \<Rightarrow> world \<Rightarrow> error option \<times> world" where
  "addTodayRow now w =
     (case getTrackingSheet w of
        Inl e \<Rightarrow> (Some e, w)
      | Inr sh \<Rightarrow>
          (let today = formatDate now;
               data = getDataRangeValues sh
           in if todayRowExists today (drop 1 data) then (None, w)
              else (let newRow = getLastRow sh + 1
                    in (None, w\<lparr>tracking := Some (setDateValue sh newRow (CDate now))\<rparr>))))"

text \<open>\<^verbatim>\<open>dailyAutoAddRow\<close>: nothing happens when the lock is not obtained.\<close>

definition dailyAutoAddRow :: "int \<Rightarrow> bool \<Rightarrow> world \<Rightarrow> error option \<times> world" where
  "dailyAutoAddRow now lockOk w = (if \<not> lockOk then (None, w) else addTodayRow now w)"

section \<open>Reminders\<close>

text \<open>The scan of \<^verbatim>\<open>sendDailyReminder\<close> for today's row; it stops at the first one.\<close>

fun todayFilledLoop :: "int \<Rightarrow> row list \<Rightarrow> bool" where
  "todayFilledLoop today [] = False"
| "todayFilledLoop today (r # rs) =
     (case colDate r of
        CDate d \<Rightarrow>
          (if formatDate d = today then colExerciseType r \<noteq> CStr []
           else todayFilledLoop today rs)
      | _ \<Rightarrow> todayFilledLoop today rs)"

text \<open>\<^verbatim>\<open>Array.prototype.join("\n")\<close>\<close>

fun joinLines :: "string list \<Rightarrow> string" where
  "joinLines [] = []"
| "joinLines [l] = l"
| "joinLines (l # ls) = l @ [CHR 0x0A] @ joinLines ls"

definition reminderBody :: "nat \<Rightarrow> nat \<Rightarrow> string \<Rightarrow> string" where
  "reminderBody exerciseStreak noAlcoholStreak url =
     joinLines
       [''Today's habits haven't been recorded yet!'',
        [],
        ''Exercise Streak: '' @ decimal exerciseStreak @ '' days'',
        ''No-Alcohol Streak: '' @ decimal noAlcoholStreak @ '' days'',
        [],
        ''Record now: '' @ url,
        [],
        ''Keep it up!'']"

text \<open>
  \<^verbatim>\<open>MailApp.sendEmail\<close>: it either delivers the mail or throws; which of the two is
  the caller's \<open>mailOk\<close>.
\<close>

definition sendEmail :: "bool \<Rightarrow> email \<Rightarrow> world \<Rightarrow> error + world" where
  "sendEmail mailOk m w = (if mailOk then Inr (w\<lparr>outbox := outbox w @ [m]\<rparr>) else Inl MailFailed)"

text \<open>
  \<^verbatim>\<open>sendDailyReminder\<close>. \<open>lockOk\<close> is the result of \<^verbatim>\<open>lock.tryLock(10000)\<close>; the
  lock is released on every path and is not part of the state. The result is the error
  thrown (if any) and the state left behind.
\<close>

definition sendDailyReminder :: "int \<Rightarrow> bool \<Rightarrow> bool \<Rightarrow> world \<Rightarrow> error option \<times> world" where
  "sendDailyReminder now lockOk mailOk w =
     (if \<not> lockOk then (None, w)
      else
        let today = formatDate now;
            lastReminder = lastReminderDate w
        in if lastReminder = Some today then (None, w)
           else
             (case getTrackingSheet w of
                Inl e \<Rightarrow> (Some e, w)
              | Inr sh \<Rightarrow>
                  (let data = getDataRangeValues sh;
                       todayFilled = todayFilledLoop today (drop 1 data)
                   in if todayFilled then (None, w)
                      else
                        (case calculateExerciseStreak w of
                           Inl e \<Rightarrow> (Some e, w)
                         | Inr exerciseStreak \<Rightarrow>
                             (case calculateNoAlcoholStreak w of
                                Inl e \<Rightarrow> (Some e, w)
                              | Inr noAlcoholStreak \<Rightarrow>
                                  (case sendEmail mailOk
                                          \<lparr>mailTo = userEmail w,
                                           mailSubject = ''Habit Tracker: Record Today's Habits'',
                                           mailBody = reminderBody exerciseStreak noAlcoholStreak (ssUrl w)\<rparr>
                                          w of
                                     Inl e \<Rightarrow> (Some e, w)
                                   | Inr w' \<Rightarrow> (None, w'\<lparr>lastReminderDate := Some today\<rparr>)))))))"


declare decimal.simps [simp del]

section \<open>Predicates and views used to state the results\<close>

text \<open>
  The row test shared by both window loops: a Date cell not before \<open>start\<close>.
\<close>

definition dateFrom :: "int \<Rightarrow> row \<Rightarrow> bool" where
  "dateFrom start r = (case colDate r of CDate d \<Rightarrow> \<not> normalizeDate d < start | _ \<Rightarrow> False)"

text \<open>
  The same test without the normalisation: a Date cell at or after \<open>start\<close>.
\<close>

definition sinceTime :: "int \<Rightarrow> row \<Rightarrow> bool" where
  "sinceTime start r = (case colDate r of CDate d \<Rightarrow> start \<le> d | _ \<Rightarrow> False)"

text \<open>
  The rows a week's and a month's statistics are taken over.
\<close>

definition weekWindow :: "int \<Rightarrow> row list \<Rightarrow> row list" where
  "weekWindow now data = filter (sinceTime (mondayOf now)) data"

definition monthWindow :: "int \<Rightarrow> row list \<Rightarrow> row list" where
  "monthWindow now data = filter (sinceTime (normalizeDate (now - 30 * DAY_MS))) data"

text \<open>
  \<^verbatim>\<open>mondayOffset\<close> of \<^verbatim>\<open>getWeekStats_\<close>, as a function of \<open>now\<close>.
\<close>

definition mondayOffset :: "int \<Rightarrow> int" where
  "mondayOffset now = (if getDay now = 0 then 6 else getDay now - 1)"

text \<open>
  A row whose weight cell passes \<^verbatim>\<open>typeof weight === "number" && weight > 0\<close>.
\<close>

definition positiveWeight :: "row \<Rightarrow> bool" where
  "positiveWeight r = (isNumber (colWeight r) \<and> numberOf (colWeight r) > 0)"

text \<open>
  A row whose date cell is a Date of the calendar day \<open>today\<close>; the data rows of that day.
\<close>

definition isOnDay :: "int \<Rightarrow> row \<Rightarrow> bool" where
  "isOnDay today r = (case colDate r of CDate d \<Rightarrow> formatDate d = today | _ \<Rightarrow> False)"

definition todayRecords :: "int \<Rightarrow> sheet \<Rightarrow> row list" where
  "todayRecords now sh = filter (isOnDay (formatDate now)) (drop 1 sh)"

text \<open>
  The row \<^verbatim>\<open>addTodayRow\<close> creates: the date, every other cell empty.
\<close>

definition dateOnlyRow :: "int \<Rightarrow> row" where
  "dateOnlyRow now = \<lparr>colDate = CDate now, colExerciseType = CStr [], colExerciseMin = CStr [],
     colBeerCount = CStr [], colWeight = CStr [], colNotes = CStr []\<rparr>"

text \<open>
  What the scan of \<^verbatim>\<open>sendDailyReminder\<close> finds: the first row of today has an exercise
  type other than the empty text.
\<close>

definition todayFilled :: "int \<Rightarrow> sheet \<Rightarrow> bool" where
  "todayFilled now sh =
     (case find (isOnDay (formatDate now)) (drop 1 sh) of
        None \<Rightarrow> False
      | Some r \<Rightarrow> colExerciseType r \<noteq> CStr [])"

text \<open>
  The mail \<^verbatim>\<open>sendDailyReminder\<close> composes for the data rows \<open>data\<close>.
\<close>

definition reminderMail :: "world \<Rightarrow> row list \<Rightarrow> email" where
  "reminderMail w data =
     \<lparr>mailTo = userEmail w,
      mailSubject = ''Habit Tracker: Record Today's Habits'',
      mailBody = reminderBody
        (length (takeWhile (\<lambda>r. isExercise (colExerciseType r)) (rev data)))
        (length (takeWhile (\<lambda>r. isNoAlcohol (colBeerCount r)) (rev data)))
        (ssUrl w)\<rparr>"

text \<open>
  A cell kept when it is a number (a positive number), and emptied otherwise; the rows
  with their numeric cells so treated, with and without the beer count.
\<close>

definition absentUnlessNumber :: "cell \<Rightarrow> cell" where
  "absentUnlessNumber c = (if isNumber c then c else emptyCell)"

definition absentUnlessPositive :: "cell \<Rightarrow> cell" where
  "absentUnlessPositive c = (if isNumber c \<and> numberOf c > 0 then c else emptyCell)"

definition dropMalformed :: "row \<Rightarrow> row" where
  "dropMalformed r =
     r\<lparr>colExerciseMin := absentUnlessNumber (colExerciseMin r),
       colBeerCount := absentUnlessNumber (colBeerCount r),
       colWeight := absentUnlessPositive (colWeight r)\<rparr>"

definition dropMalformedMinWeight :: "row \<Rightarrow> row" where
  "dropMalformedMinWeight r =
     r\<lparr>colExerciseMin := absentUnlessNumber (colExerciseMin r),
       colWeight := absentUnlessPositive (colWeight r)\<rparr>"

section \<open>Definitions that follow the specification's words\<close>

text \<open>
  The calendar day of a record, when its date cell holds a Date.
\<close>

definition dayOf :: "row \<Rightarrow> int option" where
  "dayOf r = (case colDate r of CDate d \<Rightarrow> Some (formatDate d) | _ \<Rightarrow> None)"

text \<open>
  \<open>currentExerciseStreak\<close> as the specification words it, on the records most recent
  first: count exercise days, stop at the first non-exercise day or at the first day with
  no matching record (the next older record is not dated the day before).
\<close>

fun spec_streakBack :: "row list \<Rightarrow> nat" where
  "spec_streakBack [] = 0"
| "spec_streakBack [r] = (if isExercise (colExerciseType r) then 1 else 0)"
| "spec_streakBack (r # r' # rs) =
     (if \<not> isExercise (colExerciseType r) then 0
      else if dayOf r \<noteq> None \<and> dayOf r' = map_option (\<lambda>d. d - 1) (dayOf r)
           then 1 + spec_streakBack (r' # rs)
           else 1)"

definition spec_currentExerciseStreak :: "row list \<Rightarrow> nat" where
  "spec_currentExerciseStreak records = spec_streakBack (rev records)"


text \<open>
  The week's window as the specification words it: from Monday 00:00 through \<open>now\<close>.
\<close>

definition spec_weekWindow :: "int \<Rightarrow> row \<Rightarrow> bool" where
  "spec_weekWindow now r = (case colDate r of CDate d \<Rightarrow> mondayOf now \<le> d \<and> d \<le> now | _ \<Rightarrow> False)"

text \<open>
  The field domains of the specification's data model: minutes a non-negative integer, a
  beer count an integer from 0 to 20, a weight a positive number; and a record with every
  field outside its domain treated as absent.
\<close>

definition spec_validMinutes :: "cell \<Rightarrow> bool" where
  "spec_validMinutes c = (case c of CNum x \<Rightarrow> 0 \<le> x \<and> of_int \<lfloor>x\<rfloor> = x | _ \<Rightarrow> False)"

definition spec_validBeerCount :: "cell \<Rightarrow> bool" where
  "spec_validBeerCount c = (case c of CNum x \<Rightarrow> 0 \<le> x \<and> x \<le> 20 \<and> of_int \<lfloor>x\<rfloor> = x | _ \<Rightarrow> False)"

definition spec_validWeight :: "cell \<Rightarrow> bool" where
  "spec_validWeight c = (case c of CNum x \<Rightarrow> 0 < x | _ \<Rightarrow> False)"

definition spec_treatAsAbsent :: "row \<Rightarrow> row" where
  "spec_treatAsAbsent r =
     r\<lparr>colExerciseMin := (if spec_validMinutes (colExerciseMin r) then colExerciseMin r else emptyCell),
       colBeerCount := (if spec_validBeerCount (colBeerCount r) then colBeerCount r else emptyCell),
       colWeight := (if spec_validWeight (colWeight r) then colWeight r else emptyCell)\<rparr>"

section \<open>Example data\<close>

text \<open>
  \<^verbatim>\<open>HEADER_ROW\<close>, as \<^verbatim>\<open>initializeSheet\<close> writes it to row 1.
\<close>

definition HEADER_ROW :: row where
  "HEADER_ROW = \<lparr>colDate = CStr ''Date'', colExerciseType = CStr ''Exercise Type'',
     colExerciseMin = CStr ''Duration (min)'', colBeerCount = CStr ''Beers'',
     colWeight = CStr ''Weight (kg)'', colNotes = CStr ''Notes''\<rparr>"

text \<open>
  A data row with a date, an exercise type and a beer count, the other cells empty.
\<close>

definition dayRow :: "int \<Rightarrow> string \<Rightarrow> cell \<Rightarrow> row" where
  "dayRow t ex beers = \<lparr>colDate = CDate t, colExerciseType = CStr ex, colExerciseMin = emptyCell,
     colBeerCount = beers, colWeight = emptyCell, colNotes = emptyCell\<rparr>"

text \<open>
  A state whose Tracking sheet is the header followed by the given data rows, and a state
  with no Tracking sheet.
\<close>

definition worldOf :: "row list \<Rightarrow> world" where
  "worldOf data = \<lparr>tracking = Some (HEADER_ROW # data), lastReminderDate = None, outbox = [],
     ssUrl = ''https://sheet'', userEmail = ''me@example.com''\<rparr>"


text \<open>
  The scenario of the specification's section 8: Monday Gym, Tuesday Rest Day, Wednesday
  and Thursday Running (5 to 8 January 1970), no beer counts. The state with these rows,
  used on Friday 9 January at 21:00 (766800000), and that state after the reminder.
\<close>

definition scenarioRows :: "row list" where
  "scenarioRows = [dayRow 345600000 ''Gym'' emptyCell, dayRow 432000000 ''Rest Day'' emptyCell,
     dayRow 518400000 ''Running'' emptyCell, dayRow 604800000 ''Running'' emptyCell]"

definition fridayWorld :: world where
  "fridayWorld = worldOf scenarioRows"

definition remindedWorld :: world where
  "remindedWorld =
     fridayWorld\<lparr>outbox := [reminderMail fridayWorld scenarioRows], lastReminderDate := Some 8\<rparr>"

text \<open>
  Two Gym rows two days apart, 5 and 7 January 1970; and two on adjacent days, 5 and 6
  January.
\<close>

definition gapRows :: "row list" where
  "gapRows = [dayRow 345600000 ''Gym'' emptyCell, dayRow 518400000 ''Gym'' emptyCell]"

definition adjacentRows :: "row list" where
  "adjacentRows = [dayRow 345600000 ''Gym'' emptyCell, dayRow 432000000 ''Gym'' emptyCell]"


text \<open>
  Sunday 4 January 23:59, Monday 5 January 00:00 and Wednesday 7 January.
\<close>

definition boundaryRows :: "row list" where
  "boundaryRows =
     [\<lparr>colDate = CDate 345540000, colExerciseType = CStr ''Gym'', colExerciseMin = CNum 45,
       colBeerCount = CNum 3, colWeight = CNum 80, colNotes = emptyCell\<rparr>,
      \<lparr>colDate = CDate 345600000, colExerciseType = CStr ''Gym'', colExerciseMin = CNum 30,
       colBeerCount = CNum 1, colWeight = CNum 71, colNotes = emptyCell\<rparr>,
      \<lparr>colDate = CDate 518400000, colExerciseType = CStr ''Rest Day'', colExerciseMin = emptyCell,
       colBeerCount = CNum 2, colWeight = CNum 72, colNotes = emptyCell\<rparr>]"

text \<open>
  One row dated Wednesday 7 January, read on Monday 5 January at 12:00 (388800000).
\<close>

definition laterThisWeekRows :: "row list" where
  "laterThisWeekRows = [dayRow 518400000 ''Gym'' emptyCell]"


text \<open>
  Rows with a text as beer count, with negative minutes, and with several malformed cells.
\<close>

definition badBeerRows :: "row list" where
  "badBeerRows = [dayRow 345600000 ''Gym'' (CStr ''two'')]"

definition negativeMinutesRows :: "row list" where
  "negativeMinutesRows =
     [\<lparr>colDate = CDate 345600000, colExerciseType = CStr ''Gym'', colExerciseMin = CNum (- 5),
       colBeerCount = emptyCell, colWeight = emptyCell, colNotes = emptyCell\<rparr>]"

definition malformedRows :: "row list" where
  "malformedRows =
     [\<lparr>colDate = CDate 345600000, colExerciseType = CStr ''Gym'', colExerciseMin = CStr ''half an hour'',
       colBeerCount = CBool True, colWeight = CNum (- 3), colNotes = emptyCell\<rparr>,
      \<lparr>colDate = CDate 432000000, colExerciseType = CStr ''Yoga'', colExerciseMin = CNum 20,
       colBeerCount = CNum 0, colWeight = CStr ''70kg'', colNotes = emptyCell\<rparr>]"

section \<open>Facts about reading the sheet\<close>

lemma getTrackingData_cases:
  "getTrackingData w =
     (case tracking w of None \<Rightarrow> Inl SheetNotFound | Some sh \<Rightarrow> Inr (drop 1 sh))"
  by (cases "tracking w") (auto simp: getTrackingData_def getTrackingSheet_def getLastRow_def)

lemma getTrackingData_worldOf: "getTrackingData (worldOf data) = Inr data"
  by (simp add: getTrackingData_cases worldOf_def)

lemma drop1_getDataRangeValues: "drop (Suc 0) (getDataRangeValues sh) = drop (Suc 0) sh"
  by (simp add: getDataRangeValues_def)

lemma setDateValue_append: "setDateValue sh (Suc (getLastRow sh)) v = sh @ [blankRow\<lparr>colDate := v\<rparr>]"
  by (simp add: setDateValue_def getLastRow_def)

lemma blankRow_date: "blankRow\<lparr>colDate := CDate now\<rparr> = dateOnlyRow now"
  by (simp add: blankRow_def dateOnlyRow_def emptyCell_def)

section \<open>Facts about dates\<close>

lemma div_less_iff_int:
  assumes "0 < (D::int)"
  shows "(d div D < k) = (d < k * D)"
proof
  assume "d div D < k"
  then have "d div D + 1 \<le> k" by simp
  then have "(d div D + 1) * D \<le> k * D"
    using assms by (simp add: mult_right_mono)
  moreover have "d < (d div D + 1) * D"
  proof -
    have "d div D * D + d mod D = d" by (rule div_mult_mod_eq)
    moreover have "d mod D < D" using assms by simp
    moreover have "(d div D + 1) * D = d div D * D + D" by (simp add: algebra_simps)
    ultimately show ?thesis by linarith
  qed
  ultimately show "d < k * D" by simp
next
  assume lt: "d < k * D"
  show "d div D < k"
  proof (rule ccontr)
    assume "\<not> d div D < k"
    then have "k \<le> d div D" by simp
    then have "k * D \<le> d div D * D"
      using assms by (simp add: mult_right_mono)
    moreover have "d div D * D \<le> d"
    proof -
      have "d div D * D + d mod D = d" by (rule div_mult_mod_eq)
      moreover have "0 \<le> d mod D" using assms by simp
      ultimately show ?thesis by linarith
    qed
    ultimately show False using lt by simp
  qed
qed

lemma DAY_MS_pos: "0 < DAY_MS"
  by (simp add: DAY_MS_def)

lemma normalizeDate_eq: "normalizeDate t = (t div DAY_MS) * DAY_MS"
  by (simp add: normalizeDate_def minus_mod_eq_div_mult)

lemma normalizeDate_shift: "normalizeDate (t - k * DAY_MS) = (t div DAY_MS - k) * DAY_MS"
proof -
  have "(t + (- k) * DAY_MS) div DAY_MS = - k + t div DAY_MS"
    using DAY_MS_pos by (subst div_mult_self1) simp_all
  then show ?thesis by (simp add: normalizeDate_eq)
qed

lemma normalizeDate_less_iff: "normalizeDate d < normalizeDate t \<longleftrightarrow> d < normalizeDate t"
  using div_less_iff_int[OF DAY_MS_pos, of d "t div DAY_MS"] DAY_MS_pos
  by (simp add: normalizeDate_eq)

lemma dateFrom_normalized: "dateFrom (normalizeDate t) = sinceTime (normalizeDate t)"
  by (rule ext) (simp add: dateFrom_def sinceTime_def normalizeDate_less_iff not_less split: cell.splits)

lemma dateFrom_mondayOf: "dateFrom (mondayOf now) = sinceTime (mondayOf now)"
  by (simp add: mondayOf_def Let_def dateFrom_normalized)

lemma mondayOf_eq: "mondayOf now = (now div DAY_MS - mondayOffset now) * DAY_MS"
  by (simp add: mondayOf_def Let_def normalizeDate_shift mondayOffset_def)

lemma mondayOf_midnight: "mondayOf now mod DAY_MS = 0"
  by (simp add: mondayOf_eq)

lemma mondayOffset_range: "0 \<le> mondayOffset now \<and> mondayOffset now \<le> 6"
proof -
  have "0 \<le> (if (4 + q) mod 7 = 0 then 6 else (4 + q) mod 7 - 1) \<and>
        (if (4 + q) mod 7 = 0 then 6 else (4 + q) mod 7 - 1) \<le> 6" for q :: int
    by presburger
  from this[of "now div DAY_MS"] show ?thesis
    unfolding mondayOffset_def getDay_def .
qed

lemma mondayOf_is_monday: "getDay (mondayOf now) = 1"
proof -
  have g: "(4 + (q - (if (4 + q) mod 7 = 0 then 6 else (4 + q) mod 7 - 1))) mod 7 = 1" for q :: int
    by presburger
  have "getDay (mondayOf now) = (4 + (now div DAY_MS - mondayOffset now)) mod 7"
    using DAY_MS_pos by (simp add: mondayOf_eq getDay_def)
  also have "\<dots> = 1"
    unfolding mondayOffset_def getDay_def by (rule g)
  finally show ?thesis .
qed

lemma mondayOf_bounds: "mondayOf now \<le> now \<and> now < mondayOf now + 7 * DAY_MS"
proof -
  define q where "q = now div DAY_MS"
  define k where "k = mondayOffset now"
  have k: "0 \<le> k" "k \<le> 6" unfolding k_def using mondayOffset_range[of now] by simp_all
  have e: "q * DAY_MS + now mod DAY_MS = now" unfolding q_def by (rule div_mult_mod_eq)
  have r: "0 \<le> now mod DAY_MS" "now mod DAY_MS < DAY_MS" using DAY_MS_pos by simp_all
  have m: "mondayOf now = q * DAY_MS - k * DAY_MS"
    by (simp add: mondayOf_eq q_def k_def algebra_simps)
  have "0 \<le> k * DAY_MS" using k DAY_MS_pos by simp
  moreover have "k * DAY_MS \<le> 6 * DAY_MS" using k DAY_MS_pos by simp
  ultimately show ?thesis using m e r by linarith
qed

section \<open>The streak loops as list functions\<close>

lemma exerciseStreakLoop_takeWhile:
  "n \<le> length data \<Longrightarrow>
   exerciseStreakLoop data n s =
     s + length (takeWhile (\<lambda>r. isExercise (colExerciseType r)) (rev (take n data)))"
proof (induction n arbitrary: s)
  case 0
  then show ?case by simp
next
  case (Suc n)
  then have "take (Suc n) data = take n data @ [data ! n]"
    by (simp add: take_Suc_conv_app_nth)
  with Suc show ?case by simp
qed

lemma noAlcoholStreakLoop_takeWhile:
  "n \<le> length data \<Longrightarrow>
   noAlcoholStreakLoop data n s =
     s + length (takeWhile (\<lambda>r. isNoAlcohol (colBeerCount r)) (rev (take n data)))"
proof (induction n arbitrary: s)
  case 0
  then show ?case by simp
next
  case (Suc n)
  then have "take (Suc n) data = take n data @ [data ! n]"
    by (simp add: take_Suc_conv_app_nth)
  with Suc show ?case by simp
qed

lemma calculateExerciseStreak_eq:
  "getTrackingData w = Inr data \<Longrightarrow>
   calculateExerciseStreak w =
     Inr (length (takeWhile (\<lambda>r. isExercise (colExerciseType r)) (rev data)))"
  by (simp add: calculateExerciseStreak_def exerciseStreakLoop_takeWhile)

lemma calculateNoAlcoholStreak_eq:
  "getTrackingData w = Inr data \<Longrightarrow>
   calculateNoAlcoholStreak w =
     Inr (length (takeWhile (\<lambda>r. isNoAlcohol (colBeerCount r)) (rev data)))"
  by (simp add: calculateNoAlcoholStreak_def noAlcoholStreakLoop_takeWhile)

lemma takeWhile_snoc:
  "takeWhile P (xs @ [x]) =
     (if \<forall>y\<in>set xs. P y then xs @ (if P x then [x] else []) else takeWhile P xs)"
  by (induction xs) auto

text \<open>
  The forward pass keeps \<open>current \<le> longest\<close>, and its \<open>current\<close> ends as the length of
  the trailing run; so the result bounds that run.
\<close>

lemma longestStreakLoop_trailing:
  "c \<le> l \<Longrightarrow>
   longestStreakLoop rs l c \<ge>
     (if \<forall>r\<in>set rs. isExercise (colExerciseType r) then c + length rs
      else length (takeWhile (\<lambda>r. isExercise (colExerciseType r)) (rev rs)))"
proof (induction rs arbitrary: l c)
  case Nil
  then show ?case by simp
next
  case (Cons r rs)
  show ?case
  proof (cases "isExercise (colExerciseType r)")
    case True
    have "c + 1 \<le> max l (c + 1)" by simp
    from Cons.IH[OF this] True show ?thesis
      by (auto simp: takeWhile_snoc split: if_splits)
  next
    case False
    have "0 \<le> l" by simp
    from Cons.IH[OF this] False show ?thesis
      by (auto simp: takeWhile_snoc split: if_splits)
  qed
qed

lemma longest_ge_trailing:
  "length (takeWhile (\<lambda>r. isExercise (colExerciseType r)) (rev data))
     \<le> longestStreakLoop data 0 0"
proof (cases "\<forall>r\<in>set data. isExercise (colExerciseType r)")
  case True
  have "length (takeWhile (\<lambda>r. isExercise (colExerciseType r)) (rev data)) \<le> length (rev data)"
    by (rule length_takeWhile_le)
  moreover from True have "length data \<le> longestStreakLoop data 0 0"
    using longestStreakLoop_trailing[of 0 0 data] by simp
  ultimately show ?thesis by simp
next
  case False
  have "(if \<forall>r\<in>set data. isExercise (colExerciseType r) then 0 + length data
         else length (takeWhile (\<lambda>r. isExercise (colExerciseType r)) (rev data)))
        \<le> longestStreakLoop data 0 0"
    by (rule longestStreakLoop_trailing) simp
  then show ?thesis
    unfolding if_not_P[OF False] .
qed

lemma longestStreakLoop_same_types:
  "map colExerciseType data' = map colExerciseType data \<Longrightarrow>
   longestStreakLoop data' l c = longestStreakLoop data l c"
proof (induction data arbitrary: data' l c)
  case Nil
  then show ?case by simp
next
  case (Cons r rs)
  from Cons.prems obtain r' rs' where d: "data' = r' # rs'"
    and h: "colExerciseType r' = colExerciseType r"
    and t: "map colExerciseType rs' = map colExerciseType rs"
    by (cases data') auto
  show ?case
    unfolding d by (simp add: h Cons.IH[OF t])
qed

lemma length_takeWhile_map:
  "length (takeWhile (\<lambda>r. P (h r)) zs) = length (takeWhile P (map h zs))"
  by (induction zs) auto

lemma takeWhile_length_map:
  assumes "map f xs = map g ys"
  shows "length (takeWhile (\<lambda>r. P (f r)) (rev xs)) = length (takeWhile (\<lambda>r. P (g r)) (rev ys))"
proof -
  have "rev (map f xs) = rev (map g ys)"
    using assms by simp
  then have "map f (rev xs) = map g (rev ys)"
    by (simp only: rev_map)
  then show ?thesis
    by (simp only: length_takeWhile_map)
qed

section \<open>The window loops as list functions\<close>

lemma weekLoop_eq:
  "weekLoop m data ed tm tb ws =
     (ed + length (filter (\<lambda>r. isExercise (colExerciseType r)) (filter (dateFrom m) data)),
      tm + sum_list (map (\<lambda>r. numberOf (colExerciseMin r)) (filter (dateFrom m) data)),
      tb + sum_list (map (\<lambda>r. numberOf (colBeerCount r)) (filter (dateFrom m) data)),
      ws @ map (\<lambda>r. numberOf (colWeight r)) (filter positiveWeight (filter (dateFrom m) data)))"
proof (induction data arbitrary: ed tm tb ws)
  case Nil
  then show ?case by simp
next
  case (Cons r rs)
  have num0: "\<not> isNumber c \<Longrightarrow> numberOf c = 0" for c by (cases c) auto
  show ?case
  proof (cases "dateFrom m r")
    case True
    then obtain d where d: "colDate r = CDate d" "\<not> normalizeDate d < m"
      by (auto simp: dateFrom_def split: cell.splits)
    show ?thesis
      using True d by (simp add: Cons.IH Let_def positiveWeight_def num0)
  next
    case False
    then show ?thesis
      by (cases "colDate r") (auto simp: dateFrom_def Cons.IH)
  qed
qed

lemma monthLoop_eq:
  "monthLoop m data ed na td =
     (ed + length (filter (\<lambda>r. isExercise (colExerciseType r)) (filter (dateFrom m) data)),
      na + length (filter (\<lambda>r. isNoAlcohol (colBeerCount r)) (filter (dateFrom m) data)),
      td + length (filter (dateFrom m) data))"
proof (induction data arbitrary: ed na td)
  case Nil
  then show ?case by simp
next
  case (Cons r rs)
  show ?case
  proof (cases "dateFrom m r")
    case True
    then obtain d where d: "colDate r = CDate d" "\<not> normalizeDate d < m"
      by (auto simp: dateFrom_def split: cell.splits)
    show ?thesis
      using True d by (simp add: Cons.IH Let_def)
  next
    case False
    then show ?thesis
      by (cases "colDate r") (auto simp: dateFrom_def Cons.IH)
  qed
qed

lemma foldl_plus_sum_list: "foldl (+) a xs = a + sum_list (xs :: rat list)"
  by (induction xs arbitrary: a) (auto simp: add.assoc)

lemma getWeekStats_eq:
  assumes "getTrackingData w = Inr data"
  shows "getWeekStats now w =
     Inr \<lparr>exerciseDays = length (filter (\<lambda>r. isExercise (colExerciseType r)) (weekWindow now data)),
          totalMinutes = sum_list (map (\<lambda>r. numberOf (colExerciseMin r)) (weekWindow now data)),
          totalBeers = sum_list (map (\<lambda>r. numberOf (colBeerCount r)) (weekWindow now data)),
          avgWeight =
            (if filter positiveWeight (weekWindow now data) = [] then None
             else Some (sum_list (map (\<lambda>r. numberOf (colWeight r)) (filter positiveWeight (weekWindow now data)))
                        / of_nat (length (filter positiveWeight (weekWindow now data)))))\<rparr>"
  using assms
  by (simp add: getWeekStats_def Let_def weekLoop_eq dateFrom_mondayOf weekWindow_def foldl_plus_sum_list)

lemma toFixed0_nonneg: "0 \<le> x \<Longrightarrow> toFixed0 x = decimal (nat (round x))"
  by (simp add: toFixed0_def round_def)

lemma getMonthStats_eq:
  assumes "getTrackingData w = Inr data"
  shows "getMonthStats now w =
     Inr \<lparr>monthExerciseDays = length (filter (\<lambda>r. isExercise (colExerciseType r)) (monthWindow now data)),
          noAlcoholDays = length (filter (\<lambda>r. isNoAlcohol (colBeerCount r)) (monthWindow now data)),
          beerFreeRate =
            (if length (monthWindow now data) = 0 then ''0''
             else decimal (nat (round
                    (of_nat (length (filter (\<lambda>r. isNoAlcohol (colBeerCount r)) (monthWindow now data)))
                       / of_nat (length (monthWindow now data)) * 100 :: rat))))\<rparr>"
  using assms
  by (simp add: getMonthStats_def Let_def monthLoop_eq dateFrom_normalized monthWindow_def
      toFixed0_nonneg)

subsection \<open>Permutations of the rows\<close>







subsection \<open>Rows with their non-numeric cells emptied\<close>

lemma numberOf_absentUnlessNumber: "numberOf (absentUnlessNumber c) = numberOf c"
  by (cases c) (simp_all add: absentUnlessNumber_def emptyCell_def)

lemma dropMalformed_simps:
  "colDate (dropMalformed r) = colDate r"
  "colExerciseType (dropMalformed r) = colExerciseType r"
  "numberOf (colExerciseMin (dropMalformed r)) = numberOf (colExerciseMin r)"
  "numberOf (colBeerCount (dropMalformed r)) = numberOf (colBeerCount r)"
  "positiveWeight (dropMalformed r) = positiveWeight r"
  "positiveWeight r \<Longrightarrow> colWeight (dropMalformed r) = colWeight r"
  by (simp_all add: dropMalformed_def numberOf_absentUnlessNumber positiveWeight_def
      absentUnlessPositive_def emptyCell_def)

lemma dropMalformedMinWeight_simps:
  "colDate (dropMalformedMinWeight r) = colDate r"
  "colExerciseType (dropMalformedMinWeight r) = colExerciseType r"
  "colBeerCount (dropMalformedMinWeight r) = colBeerCount r"
  by (simp_all add: dropMalformedMinWeight_def)

lemma weekLoop_dropMalformed:
  "weekLoop m (map dropMalformed data) ed tm tb ws = weekLoop m data ed tm tb ws"
proof (induction data arbitrary: ed tm tb ws)
  case Nil
  then show ?case by simp
next
  case (Cons r rs)
  have n: "isNumber (colExerciseMin (dropMalformed r)) = isNumber (colExerciseMin r)"
       "isNumber (colBeerCount (dropMalformed r)) = isNumber (colBeerCount r)"
    by (simp_all add: dropMalformed_def absentUnlessNumber_def emptyCell_def)
  have e: "colExerciseMin (dropMalformed r) = colExerciseMin r" if "isNumber (colExerciseMin r)"
    using that by (simp add: dropMalformed_def absentUnlessNumber_def)
  have b: "colBeerCount (dropMalformed r) = colBeerCount r" if "isNumber (colBeerCount r)"
    using that by (simp add: dropMalformed_def absentUnlessNumber_def)
  have p: "(isNumber (colWeight (dropMalformed r)) \<and> 0 < numberOf (colWeight (dropMalformed r))) =
           (isNumber (colWeight r) \<and> 0 < numberOf (colWeight r))"
    using dropMalformed_simps(5)[of r] by (simp add: positiveWeight_def)
  have pw: "colWeight (dropMalformed r) = colWeight r" if "isNumber (colWeight r) \<and> 0 < numberOf (colWeight r)"
    using that dropMalformed_simps(6)[of r] by (simp add: positiveWeight_def)
  show ?case
  proof (cases "colDate r")
    case (CDate d)
    show ?thesis
    proof (cases "normalizeDate d < m")
      case True
      with CDate show ?thesis by (simp add: dropMalformed_simps(1) Cons.IH)
    next
      case False
      have "weekLoop m (map dropMalformed (r # rs)) ed tm tb ws =
        weekLoop m (map dropMalformed rs)
          (if isExercise (colExerciseType r) then ed + 1 else ed)
          (if isNumber (colExerciseMin r) then tm + numberOf (colExerciseMin r) else tm)
          (if isNumber (colBeerCount r) then tb + numberOf (colBeerCount r) else tb)
          (if isNumber (colWeight r) \<and> numberOf (colWeight r) > 0
           then ws @ [numberOf (colWeight r)] else ws)"
        using CDate False
        by (simp add: dropMalformed_simps(1,2,3,4) n p Let_def) (simp add: pw)
      then show ?thesis using CDate False by (simp add: Cons.IH Let_def)
    qed
  qed (simp_all add: dropMalformed_simps(1) Cons.IH)
qed

lemma monthLoop_dropMalformedMinWeight:
  "monthLoop m (map dropMalformedMinWeight data) ed na td = monthLoop m data ed na td"
proof (induction data arbitrary: ed na td)
  case Nil
  then show ?case by simp
next
  case (Cons r rs)
  show ?case
    by (cases "colDate r") (simp_all add: dropMalformedMinWeight_simps Cons.IH Let_def)
qed

section \<open>The guarded actions in closed form\<close>

lemma todayRowExists_iff: "todayRowExists today rs = (filter (isOnDay today) rs \<noteq> [])"
  by (induction rs) (auto simp: isOnDay_def split: cell.splits)

lemma todayFilledLoop_find:
  "todayFilledLoop today rs =
     (case find (isOnDay today) rs of None \<Rightarrow> False | Some r \<Rightarrow> colExerciseType r \<noteq> CStr [])"
  by (induction rs) (auto simp: isOnDay_def split: cell.splits)


lemma addTodayRow_eq:
  "addTodayRow now w =
     (case tracking w of
        None \<Rightarrow> (Some SheetNotFound, w)
      | Some sh \<Rightarrow>
          (None, if todayRecords now sh \<noteq> [] then w
                 else w\<lparr>tracking := Some (sh @ [dateOnlyRow now])\<rparr>))"
  by (cases "tracking w")
     (simp_all add: addTodayRow_def getTrackingSheet_def Let_def drop1_getDataRangeValues
       todayRowExists_iff todayRecords_def setDateValue_append blankRow_date)

lemma sendDailyReminder_eq:
  "sendDailyReminder now lockOk mailOk w =
     (if \<not> lockOk \<or> lastReminderDate w = Some (formatDate now) then (None, w)
      else case tracking w of
        None \<Rightarrow> (Some SheetNotFound, w)
      | Some sh \<Rightarrow>
          if todayFilled now sh then (None, w)
          else if mailOk
               then (None, w\<lparr>outbox := outbox w @ [reminderMail w (drop 1 sh)],
                             lastReminderDate := Some (formatDate now)\<rparr>)
               else (Some MailFailed, w))"
proof (cases "tracking w")
  case None
  then show ?thesis
    by (simp add: sendDailyReminder_def getTrackingSheet_def Let_def)
next
  case (Some sh)
  then have d: "getTrackingData w = Inr (drop 1 sh)"
    by (simp add: getTrackingData_cases)
  have s: "getTrackingSheet w = Inr sh"
    using Some by (simp add: getTrackingSheet_def)
  have f: "todayFilledLoop (formatDate now) (drop (Suc 0) (getDataRangeValues sh)) = todayFilled now sh"
    by (simp add: todayFilledLoop_find drop1_getDataRangeValues todayFilled_def)
  show ?thesis
    by (simp add: sendDailyReminder_def Let_def s Some f calculateExerciseStreak_eq[OF d]
        calculateNoAlcoholStreak_eq[OF d] sendEmail_def reminderMail_def)
qed

subsection \<open>The reminder on the example state\<close>

lemma friday_not_filled: "\<not> todayFilled 766800000 (HEADER_ROW # scenarioRows)"
  by (simp add: todayFilled_def scenarioRows_def dayRow_def isOnDay_def formatDate_def DAY_MS_def)

lemma thursday_filled: "todayFilled 680400000 (HEADER_ROW # scenarioRows)"
  by (simp add: todayFilled_def scenarioRows_def dayRow_def isOnDay_def formatDate_def DAY_MS_def)

lemma friday_days: "formatDate 766800000 = 8" "formatDate 770400000 = 8" "formatDate 680400000 = 7"
  by (simp_all add: formatDate_def DAY_MS_def)

lemma friday_first_call: "sendDailyReminder 766800000 True True fridayWorld = (None, remindedWorld)"
  using friday_not_filled
  by (simp add: sendDailyReminder_eq fridayWorld_def remindedWorld_def worldOf_def friday_days)

lemma friday_second_call: "sendDailyReminder 770400000 True True remindedWorld = (None, remindedWorld)"
  by (simp add: sendDailyReminder_eq remindedWorld_def friday_days)


lemma thursday_call: "sendDailyReminder 680400000 True True fridayWorld = (None, fridayWorld)"
  using thursday_filled
  by (simp add: sendDailyReminder_eq fridayWorld_def worldOf_def friday_days)

section \<open>Claims\<close>

text \<open>
  C1, as amended. \<^verbatim>\<open>calculateExerciseStreak\<close> counts the rows at the end of the data
  that are exercise days (a truthy exercise type other than "Rest Day"; for a text, one
  that is neither empty nor "Rest Day"), walking back from the last row and stopping at
  the first row that is not one. It reads no date: two sheets whose exercise-type columns
  agree give the same streak, so neither a gap between the dates of adjacent rows nor a
  missing row for today ends the streak.
\<close>

theorem current_streak_counts_trailing_rows:
  assumes "getTrackingData w = Inr data"
  shows "calculateExerciseStreak w =
           Inr (length (takeWhile (\<lambda>r. isExercise (colExerciseType r)) (rev data))) \<and>
         (\<forall>w' data'. getTrackingData w' = Inr data' \<and>
              map colExerciseType data' = map colExerciseType data \<longrightarrow>
              calculateExerciseStreak w' = calculateExerciseStreak w) \<and>
         (\<forall>s. isExercise (CStr s) = (s \<noteq> [] \<and> s \<noteq> ''Rest Day''))"
proof -
  have len: "length (takeWhile (\<lambda>r. isExercise (colExerciseType r)) xs) =
             length (takeWhile isExercise (map colExerciseType xs))" for xs :: "row list"
    by (induction xs) auto
  show ?thesis
  proof (intro conjI allI impI)
    show "calculateExerciseStreak w =
           Inr (length (takeWhile (\<lambda>r. isExercise (colExerciseType r)) (rev data)))"
      using assms by (rule calculateExerciseStreak_eq)
  next
    fix w' data'
    assume a: "getTrackingData w' = Inr data' \<and> map colExerciseType data' = map colExerciseType data"
    then have "map colExerciseType (rev data') = map colExerciseType (rev data)"
      by (simp add: rev_map[symmetric])
    then show "calculateExerciseStreak w' = calculateExerciseStreak w"
      using a assms by (simp add: calculateExerciseStreak_eq len)
  next
    fix s show "isExercise (CStr s) = (s \<noteq> [] \<and> s \<noteq> ''Rest Day'')"
      by (auto simp: isExercise_def)
  qed
qed

theorem current_streak_counts_trailing_rows_witness:
  "getTrackingData (worldOf gapRows) = Inr gapRows \<and>
   calculateExerciseStreak (worldOf gapRows) =
     Inr (length (takeWhile (\<lambda>r. isExercise (colExerciseType r)) (rev gapRows))) \<and>
   length (takeWhile (\<lambda>r. isExercise (colExerciseType r)) (rev gapRows)) = 2 \<and>
   getTrackingData (worldOf adjacentRows) = Inr adjacentRows \<and>
   map colExerciseType adjacentRows = map colExerciseType gapRows \<and>
   calculateExerciseStreak (worldOf adjacentRows) = calculateExerciseStreak (worldOf gapRows)"
proof -
  have t: "map colExerciseType adjacentRows = map colExerciseType gapRows"
    by (simp add: adjacentRows_def gapRows_def dayRow_def)
  have n: "length (takeWhile (\<lambda>r. isExercise (colExerciseType r)) (rev gapRows)) = 2"
    by (simp add: gapRows_def dayRow_def isExercise_def)
  from current_streak_counts_trailing_rows [OF getTrackingData_worldOf, of gapRows]
  have "calculateExerciseStreak (worldOf gapRows) =
          Inr (length (takeWhile (\<lambda>r. isExercise (colExerciseType r)) (rev gapRows))) \<and>
        calculateExerciseStreak (worldOf adjacentRows) = calculateExerciseStreak (worldOf gapRows)"
    using t getTrackingData_worldOf [of adjacentRows] by blast
  with t n show ?thesis
    by (simp add: getTrackingData_worldOf)
qed

text \<open>
  C1 as stated fails: with Gym on 5 January and Gym on 7 January (no row for the 6th) the
  script returns 2, where a walk that stops at the gap returns 1.
\<close>

theorem gap_does_not_break_streak:
  "calculateExerciseStreak (worldOf gapRows) = Inr 2 \<and>
   dayOf (gapRows ! 0) = Some 4 \<and> dayOf (gapRows ! 1) = Some 6 \<and>
   spec_currentExerciseStreak gapRows = 1"
  by (simp add: calculateExerciseStreak_def getTrackingData_worldOf gapRows_def dayRow_def
      isExercise_def spec_currentExerciseStreak_def dayOf_def formatDate_def DAY_MS_def)




text \<open>
  C3. Two calls of \<^verbatim>\<open>sendDailyReminder\<close> on the same calendar day, whatever the lock
  and the mail service do and whatever happens to the sheet between them, add at most one
  mail to the outbox. A call does nothing when the marker \<^verbatim>\<open>lastReminderDate\<close> is
  today, and nothing when today's row has a non-empty exercise type; a call that sends
  sets the marker to today, and the second call then leaves the state as it is.
\<close>

theorem reminder_sent_at_most_once_a_day:
  assumes "sendDailyReminder now lock1 mail1 w = (e1, w1)"
    and "formatDate now' = formatDate now"
    and "sendDailyReminder now' lock2 mail2 (w1\<lparr>tracking := t\<rparr>) = (e2, w2)"
  shows "(\<exists>ms. outbox w2 = outbox w @ ms \<and> length ms \<le> 1) \<and>
         (lastReminderDate w = Some (formatDate now) \<longrightarrow> e1 = None \<and> w1 = w) \<and>
         (\<forall>sh. tracking w = Some sh \<and> todayFilled now sh \<longrightarrow> e1 = None \<and> w1 = w) \<and>
         (outbox w1 \<noteq> outbox w \<longrightarrow>
            lastReminderDate w1 = Some (formatDate now) \<and> e2 = None \<and> w2 = w1\<lparr>tracking := t\<rparr>)"
proof -
  have first: "(w1 = w) \<or>
     (\<exists>m. w1 = w\<lparr>outbox := outbox w @ [m], lastReminderDate := Some (formatDate now)\<rparr>)"
    using assms(1) unfolding sendDailyReminder_eq
    by (auto split: if_splits option.splits)
  have skip1: "lastReminderDate w = Some (formatDate now) \<Longrightarrow> e1 = None \<and> w1 = w"
    using assms(1) unfolding sendDailyReminder_eq by simp
  have skip2: "tracking w = Some sh \<Longrightarrow> todayFilled now sh \<Longrightarrow> e1 = None \<and> w1 = w" for sh
    using assms(1) unfolding sendDailyReminder_eq by (simp split: if_splits)
  have second: "lastReminderDate w1 = Some (formatDate now) \<Longrightarrow> e2 = None \<and> w2 = w1\<lparr>tracking := t\<rparr>"
    using assms(2,3) unfolding sendDailyReminder_eq by simp
  have second': "(outbox w2 = outbox w1) \<or> (\<exists>m. outbox w2 = outbox w1 @ [m])"
    using assms(3) unfolding sendDailyReminder_eq
    by (auto split: if_splits option.splits)
  from first show ?thesis
  proof
    assume same: "w1 = w"
    from second' have "\<exists>ms. outbox w2 = outbox w @ ms \<and> length ms \<le> 1"
      unfolding same
    proof
      assume "outbox w2 = outbox w"
      then have "outbox w2 = outbox w @ [] \<and> length ([] :: email list) \<le> 1" by simp
      then show ?thesis by blast
    next
      assume "\<exists>m. outbox w2 = outbox w @ [m]"
      then obtain m where "outbox w2 = outbox w @ [m] \<and> length [m] \<le> 1" by auto
      then show ?thesis by blast
    qed
    with same skip1 skip2 show ?thesis by auto
  next
    assume "\<exists>m. w1 = w\<lparr>outbox := outbox w @ [m], lastReminderDate := Some (formatDate now)\<rparr>"
    then obtain m where w1: "w1 = w\<lparr>outbox := outbox w @ [m], lastReminderDate := Some (formatDate now)\<rparr>"
      by blast
    then have l: "lastReminderDate w1 = Some (formatDate now)" by simp
    from second[OF l] have w2: "e2 = None" "w2 = w1\<lparr>tracking := t\<rparr>" by simp_all
    have "outbox w2 = outbox w @ [m] \<and> length [m] \<le> 1"
      by (simp add: w2 w1)
    then have "\<exists>ms. outbox w2 = outbox w @ ms \<and> length ms \<le> 1" by blast
    with skip1 skip2 l w2 show ?thesis by auto
  qed
qed

theorem reminder_sent_at_most_once_a_day_witness:
  "sendDailyReminder 766800000 True True fridayWorld = (None, remindedWorld) \<and>
   formatDate 770400000 = formatDate 766800000 \<and>
   sendDailyReminder 770400000 True True remindedWorld = (None, remindedWorld) \<and>
   outbox fridayWorld = [] \<and> length (outbox remindedWorld) = 1 \<and>
   lastReminderDate remindedWorld = Some (formatDate 766800000) \<and>
   todayFilled 680400000 (HEADER_ROW # scenarioRows) \<and>
   sendDailyReminder 680400000 True True fridayWorld = (None, fridayWorld)"
proof -
  have t: "remindedWorld\<lparr>tracking := tracking remindedWorld\<rparr> = remindedWorld"
    by simp
  have b: "sendDailyReminder 770400000 True True (remindedWorld\<lparr>tracking := tracking remindedWorld\<rparr>)
             = (None, remindedWorld)"
    unfolding t by (rule friday_second_call)
  have d: "formatDate 770400000 = formatDate 766800000"
    by (simp add: friday_days)
  show ?thesis
    using reminder_sent_at_most_once_a_day [OF friday_first_call d b]
      reminder_sent_at_most_once_a_day [OF thursday_call refl, of True True "tracking fridayWorld" None fridayWorld]
      friday_first_call friday_second_call thursday_call thursday_filled
    by (simp add: friday_days remindedWorld_def fridayWorld_def worldOf_def)
qed





text \<open>
  C6, as amended. \<^verbatim>\<open>getWeekStats_\<close> aggregates exactly the rows whose date cell is a
  Date at or after Monday 00:00 of the week of \<open>now\<close> (\<open>mondayOffset\<close> days before
  the day of \<open>now\<close>, at the start of the day): a row dated Monday 00:00 is included and
  a row dated one minute earlier is not. There is no upper bound at \<open>now\<close>: a row dated
  later than \<open>now\<close> is included as well.
\<close>

theorem week_window_starts_monday_midnight:
  assumes "getTrackingData w = Inr data"
  shows "getWeekStats now w =
     Inr \<lparr>exerciseDays = length (filter (\<lambda>r. isExercise (colExerciseType r)) (weekWindow now data)),
          totalMinutes = sum_list (map (\<lambda>r. numberOf (colExerciseMin r)) (weekWindow now data)),
          totalBeers = sum_list (map (\<lambda>r. numberOf (colBeerCount r)) (weekWindow now data)),
          avgWeight =
            (if filter positiveWeight (weekWindow now data) = [] then None
             else Some (sum_list (map (\<lambda>r. numberOf (colWeight r)) (filter positiveWeight (weekWindow now data)))
                        / of_nat (length (filter positiveWeight (weekWindow now data)))))\<rparr> \<and>
     weekWindow now data = filter (\<lambda>r. \<exists>d. colDate r = CDate d \<and> mondayOf now \<le> d) data \<and>
     getDay (mondayOf now) = 1 \<and> mondayOf now mod DAY_MS = 0 \<and>
     mondayOf now = normalizeDate now - (if getDay now = 0 then 6 else getDay now - 1) * DAY_MS \<and>
     mondayOf now \<le> now \<and> now < mondayOf now + 7 * DAY_MS \<and>
     weekWindow now [r\<lparr>colDate := CDate (mondayOf now)\<rparr>] = [r\<lparr>colDate := CDate (mondayOf now)\<rparr>] \<and>
     weekWindow now [r\<lparr>colDate := CDate (mondayOf now - 60000)\<rparr>] = []"
proof -
  have win: "sinceTime m = (\<lambda>r. \<exists>d. colDate r = CDate d \<and> m \<le> d)" for m
    by (rule ext) (auto simp: sinceTime_def split: cell.splits)
  have m: "mondayOf now = normalizeDate now - (if getDay now = 0 then 6 else getDay now - 1) * DAY_MS"
    by (simp add: mondayOf_eq normalizeDate_eq mondayOffset_def algebra_simps)
  show ?thesis
    using getWeekStats_eq[OF assms, of now] mondayOf_is_monday[of now] mondayOf_midnight[of now]
      mondayOf_bounds[of now] m
    by (simp add: weekWindow_def win)
qed

theorem week_window_starts_monday_midnight_witness:
  "getTrackingData (worldOf boundaryRows) = Inr boundaryRows \<and>
   mondayOf 561600000 = 345600000 \<and>
   weekWindow 561600000 boundaryRows = drop 1 boundaryRows \<and>
   getWeekStats 561600000 (worldOf boundaryRows) =
     Inr \<lparr>exerciseDays = 1, totalMinutes = 30, totalBeers = 3, avgWeight = Some (143 / 2)\<rparr>"
proof -
  have m: "mondayOf 561600000 = 345600000"
    by (simp add: mondayOf_def getDay_def DAY_MS_def normalizeDate_def)
  show ?thesis
    using week_window_starts_monday_midnight [of "worldOf boundaryRows" boundaryRows 561600000]
    by (simp add: getTrackingData_worldOf m weekWindow_def sinceTime_def boundaryRows_def
        isExercise_def positiveWeight_def emptyCell_def)
qed

text \<open>
  C6 as stated fails: read on Monday at noon, a row dated Wednesday of the same week is
  counted, though it lies outside the window from Monday 00:00 through \<open>now\<close>.
\<close>

theorem week_window_not_closed_at_now:
  "getWeekStats 388800000 (worldOf laterThisWeekRows) =
     Inr \<lparr>exerciseDays = 1, totalMinutes = 0, totalBeers = 0, avgWeight = None\<rparr> \<and>
   filter (spec_weekWindow 388800000) laterThisWeekRows = []"
proof -
  have m: "mondayOf 388800000 = 345600000"
    by (simp add: mondayOf_def getDay_def DAY_MS_def normalizeDate_def)
  show ?thesis
    by (simp add: getWeekStats_def getTrackingData_worldOf m laterThisWeekRows_def dayRow_def
      normalizeDate_def DAY_MS_def isExercise_def emptyCell_def spec_weekWindow_def)
qed



text \<open>
  C8, as amended. In \<^verbatim>\<open>getWeekStats_\<close> a minutes, beer-count or weight cell that is
  not a number (and a weight that is not positive) counts as absent: emptying these cells
  changes no result. Neither exercise streak reads these cells. No aggregation throws
  when the Tracking sheet exists. The no-alcohol classification
  (\<^verbatim>\<open>calculateNoAlcoholStreak\<close>, \<^verbatim>\<open>getMonthStats_\<close>) is unchanged by emptying
  malformed minutes and weights, but a beer count that is neither a number, nor empty,
  nor null is not a no-alcohol day.
\<close>

theorem non_numeric_fields_skipped:
  assumes "getTrackingData w = Inr data"
    and "getTrackingData w' = Inr (map dropMalformed data)"
    and "getTrackingData w'' = Inr (map dropMalformedMinWeight data)"
  shows "getWeekStats now w' = getWeekStats now w \<and>
         calculateExerciseStreak w' = calculateExerciseStreak w \<and>
         calculateLongestExerciseStreak w' = calculateLongestExerciseStreak w \<and>
         calculateNoAlcoholStreak w'' = calculateNoAlcoholStreak w \<and>
         getMonthStats now w'' = getMonthStats now w \<and>
         (\<exists>a b c d e. calculateExerciseStreak w = Inr a \<and> calculateNoAlcoholStreak w = Inr b \<and>
            calculateLongestExerciseStreak w = Inr c \<and> getWeekStats now w = Inr d \<and>
            getMonthStats now w = Inr e) \<and>
         (\<forall>c. \<not> isNumber c \<and> c \<noteq> CStr [] \<and> c \<noteq> CNull \<longrightarrow> \<not> isNoAlcohol c)"
proof (intro conjI)
  show "getWeekStats now w' = getWeekStats now w"
    using assms by (simp add: getWeekStats_def weekLoop_dropMalformed)
  have t: "map colExerciseType (map dropMalformed data) = map colExerciseType data"
    by (simp add: dropMalformed_simps)
  show "calculateExerciseStreak w' = calculateExerciseStreak w"
    using assms takeWhile_length_map[OF t, of isExercise]
    by (simp add: calculateExerciseStreak_eq)
  show "calculateLongestExerciseStreak w' = calculateLongestExerciseStreak w"
    using assms longestStreakLoop_same_types[OF t]
    by (simp add: calculateLongestExerciseStreak_def)
  have b: "map colBeerCount (map dropMalformedMinWeight data) = map colBeerCount data"
    by (simp add: dropMalformedMinWeight_simps)
  show "calculateNoAlcoholStreak w'' = calculateNoAlcoholStreak w"
    using assms takeWhile_length_map[OF b, of isNoAlcohol]
    by (simp add: calculateNoAlcoholStreak_eq)
  show "getMonthStats now w'' = getMonthStats now w"
    using assms by (simp add: getMonthStats_def monthLoop_dropMalformedMinWeight)
  show "\<exists>a b c d e. calculateExerciseStreak w = Inr a \<and> calculateNoAlcoholStreak w = Inr b \<and>
            calculateLongestExerciseStreak w = Inr c \<and> getWeekStats now w = Inr d \<and>
            getMonthStats now w = Inr e"
    using assms
    by (simp add: calculateExerciseStreak_def calculateNoAlcoholStreak_def
        calculateLongestExerciseStreak_def getWeekStats_eq getMonthStats_eq)
  show "\<forall>c. \<not> isNumber c \<and> c \<noteq> CStr [] \<and> c \<noteq> CNull \<longrightarrow> \<not> isNoAlcohol c"
    by (auto simp: isNoAlcohol_def)
qed

theorem non_numeric_fields_skipped_witness:
  "getTrackingData (worldOf malformedRows) = Inr malformedRows \<and>
   getWeekStats 518400000 (worldOf (map dropMalformed malformedRows)) =
     getWeekStats 518400000 (worldOf malformedRows) \<and>
   getWeekStats 518400000 (worldOf malformedRows) =
     Inr \<lparr>exerciseDays = 2, totalMinutes = 20, totalBeers = 0, avgWeight = None\<rparr> \<and>
   calculateExerciseStreak (worldOf (map dropMalformed malformedRows)) =
     calculateExerciseStreak (worldOf malformedRows) \<and>
   calculateNoAlcoholStreak (worldOf (map dropMalformedMinWeight malformedRows)) =
     calculateNoAlcoholStreak (worldOf malformedRows) \<and>
   \<not> isNumber (CBool True) \<and> \<not> isNoAlcohol (CBool True)"
proof -
  have m: "mondayOf 518400000 = 345600000"
    by (simp add: mondayOf_def getDay_def DAY_MS_def normalizeDate_def)
  have v: "getWeekStats 518400000 (worldOf malformedRows) =
     Inr \<lparr>exerciseDays = 2, totalMinutes = 20, totalBeers = 0, avgWeight = None\<rparr>"
    by (simp add: getWeekStats_def getTrackingData_worldOf m malformedRows_def
        normalizeDate_def DAY_MS_def emptyCell_def isExercise_def)
  show ?thesis
    using non_numeric_fields_skipped
      [of "worldOf malformedRows" malformedRows "worldOf (map dropMalformed malformedRows)"
          "worldOf (map dropMalformedMinWeight malformedRows)" 518400000] v
    by (simp add: getTrackingData_worldOf isNoAlcohol_def)
qed

text \<open>
  C8 as stated fails: a row whose beer count is the text "two" ends the no-alcohol
  streak, where the same row with the beer count absent continues it; and minutes of -5
  are summed into the week's total, where the same row with the minutes absent adds 0.
\<close>

theorem malformed_values_not_all_absent:
  "calculateNoAlcoholStreak (worldOf badBeerRows) = Inr 0 \<and>
   calculateNoAlcoholStreak (worldOf (map spec_treatAsAbsent badBeerRows)) = Inr 1 \<and>
   map_sum id totalMinutes (getWeekStats 388800000 (worldOf negativeMinutesRows)) = Inr (- 5) \<and>
   map_sum id totalMinutes (getWeekStats 388800000 (worldOf (map spec_treatAsAbsent negativeMinutesRows))) = Inr 0"
proof -
  have m: "mondayOf 388800000 = 345600000"
    by (simp add: mondayOf_def getDay_def DAY_MS_def normalizeDate_def)
  have 1: "calculateNoAlcoholStreak (worldOf badBeerRows) = Inr 0"
    by (simp add: calculateNoAlcoholStreak_def getTrackingData_worldOf badBeerRows_def dayRow_def
        isNoAlcohol_def)
  have 2: "calculateNoAlcoholStreak (worldOf (map spec_treatAsAbsent badBeerRows)) = Inr 1"
    by (simp add: calculateNoAlcoholStreak_def getTrackingData_worldOf badBeerRows_def dayRow_def
        isNoAlcohol_def spec_treatAsAbsent_def spec_validBeerCount_def emptyCell_def)
  have 3: "map_sum id totalMinutes (getWeekStats 388800000 (worldOf negativeMinutesRows)) = Inr (- 5)"
    by (simp add: getWeekStats_def getTrackingData_worldOf m negativeMinutesRows_def
        normalizeDate_def DAY_MS_def emptyCell_def)
  have 4: "map_sum id totalMinutes (getWeekStats 388800000 (worldOf (map spec_treatAsAbsent negativeMinutesRows))) = Inr 0"
    by (simp add: getWeekStats_def getTrackingData_worldOf m negativeMinutesRows_def
        normalizeDate_def DAY_MS_def emptyCell_def spec_treatAsAbsent_def spec_validMinutes_def)
  from 1 2 3 4 show ?thesis by simp
qed

text \<open>
  C9. Whenever the Tracking sheet exists, both \<^verbatim>\<open>calculateLongestExerciseStreak\<close> and
  \<^verbatim>\<open>calculateExerciseStreak\<close> return, and the longest streak is at least the current
  one.
\<close>

theorem longest_streak_ge_current_streak:
  "tracking w = Some sh \<Longrightarrow>
   \<exists>l c. calculateLongestExerciseStreak w = Inr l \<and> calculateExerciseStreak w = Inr c \<and> c \<le> l"
  by (simp add: calculateLongestExerciseStreak_def calculateExerciseStreak_def
      getTrackingData_cases exerciseStreakLoop_takeWhile longest_ge_trailing)

theorem longest_streak_ge_current_streak_witness:
  "tracking (worldOf scenarioRows) = Some (HEADER_ROW # scenarioRows) \<and>
   calculateLongestExerciseStreak (worldOf scenarioRows) = Inr 2 \<and>
   calculateExerciseStreak (worldOf scenarioRows) = Inr 2"
  using longest_streak_ge_current_streak [of "worldOf scenarioRows" "HEADER_ROW # scenarioRows"]
  by (simp add: worldOf_def calculateLongestExerciseStreak_def calculateExerciseStreak_def
      getTrackingData_cases scenarioRows_def dayRow_def isExercise_def)

text \<open>
  C10. \<^verbatim>\<open>addTodayRow\<close> throws and changes nothing when there is no Tracking sheet.
  When a data row for today exists it changes nothing. Otherwise it changes the sheet
  only, by one row after the last one, which holds the date and is empty in every other
  cell; the rows before it, the marker and the outbox are as they were.
\<close>

theorem addTodayRow_frame:
  "addTodayRow now w =
     (case tracking w of
        None \<Rightarrow> (Some SheetNotFound, w)
      | Some sh \<Rightarrow>
          (None, if todayRecords now sh \<noteq> [] then w
                 else w\<lparr>tracking := Some (sh @ [dateOnlyRow now])\<rparr>))"
  by (rule addTodayRow_eq)

end
